theory Spec2Isabelle
  imports Complex_Main
begin

section \<open>Data model\<close>

text \<open>
  The scripts under \<^verbatim>\<open>datacleaning/\<close> and the dashboard \<^verbatim>\<open>model.py\<close> work on pandas
  data frames read from \<^verbatim>\<open>itemIndex.csv\<close>. A frame is a list of rows in table order. A
  missing cell (pandas \<^verbatim>\<open>NaN\<close>) is \<open>None\<close>. Index values are modelled as exact reals:
  the rounding of IEEE floating point is outside the model.
\<close>

record price_record =
  item_code :: "string option"
  description :: "string option"
  year :: int
  month :: int
  combined_index :: "real option"

type_synonym series = "real option list"

text \<open>Exceptions of the Python runtime that the modelled code can raise.\<close>

datatype py_error = ValueError | IndexError

text \<open>The non-missing values of a column, in order (pandas skips \<^verbatim>\<open>NaN\<close> in reductions).\<close>

fun present :: "series \<Rightarrow> real list" where
  "present [] = []"
| "present (None # xs) = present xs"
| "present (Some v # xs) = v # present xs"

definition mean_list :: "real list \<Rightarrow> real" where
  "mean_list vs = sum_list vs / real (length vs)"

text \<open>\<^verbatim>\<open>Series.mean()\<close>: the mean of the non-missing values, \<^verbatim>\<open>NaN\<close> when there are none.\<close>

definition series_mean :: "series \<Rightarrow> real option" where
  "series_mean col = (let vs = present col in if vs = [] then None else Some (mean_list vs))"

section \<open>errorAnalysis.py: de-duplication and imputation\<close>

text \<open>
  \<^verbatim>\<open>df.drop_duplicates(inplace=True)\<close>: a row is dropped when an equal row occurs earlier
  in the frame; the first occurrence stays and the order of the kept rows is unchanged.
  Two missing cells compare equal here, as they do in pandas' duplicate detection.
\<close>

fun drop_dups_seen :: "'a list \<Rightarrow> 'a list \<Rightarrow> 'a list" where
  "drop_dups_seen seen [] = []"
| "drop_dups_seen seen (r # rs) =
     (if r \<in> set seen then drop_dups_seen seen rs else r # drop_dups_seen (r # seen) rs)"

definition drop_duplicates :: "'a list \<Rightarrow> 'a list" where
  "drop_duplicates df = drop_dups_seen [] df"

text \<open>
  \<^verbatim>\<open>fillna(method='ffill')\<close>: a missing cell takes the value of the nearest row above it
  that has one; cells above the first value stay missing.
\<close>

fun ffill_from :: "real option \<Rightarrow> series \<Rightarrow> series" where
  "ffill_from prev [] = []"
| "ffill_from prev (None # xs) = prev # ffill_from prev xs"
| "ffill_from prev (Some v # xs) = Some v # ffill_from (Some v) xs"

definition ffill :: "series \<Rightarrow> series" where
  "ffill col = ffill_from None col"

text \<open>
  \<^verbatim>\<open>fillna(value)\<close>: every missing cell becomes \<open>value\<close>. Filling with \<^verbatim>\<open>NaN\<close> (the mean of a
  column with no value at all) leaves the cell missing.
\<close>

definition fillna :: "real option \<Rightarrow> series \<Rightarrow> series" where
  "fillna v col = map (\<lambda>x. case x of None \<Rightarrow> v | Some y \<Rightarrow> Some y) col"

text \<open>Lines 11 and 12 of \<^verbatim>\<open>errorAnalysis.py\<close>, on the column.\<close>

definition impute :: "series \<Rightarrow> series" where
  "impute col = (let filled = ffill col in fillna (series_mean filled) filled)"

text \<open>The same two lines on the frame: only \<open>combined_index\<close> is written.\<close>

definition fill_combined_index :: "price_record list \<Rightarrow> price_record list" where
  "fill_combined_index df =
     map (\<lambda>(r, v). r\<lparr>combined_index := v\<rparr>) (zip df (impute (map combined_index df)))"

definition errorAnalysis :: "price_record list \<Rightarrow> price_record list" where
  "errorAnalysis df = fill_combined_index (drop_duplicates df)"

text \<open>
  The nearest non-missing value in the rows strictly above row \<open>i\<close>, if there is one.
\<close>

definition last_present :: "series \<Rightarrow> real option" where
  "last_present col = (case present col of [] \<Rightarrow> None | v # vs \<Rightarrow> Some (last (v # vs)))"

definition earlier_value :: "series \<Rightarrow> nat \<Rightarrow> real option" where
  "earlier_value col i = last_present (take i col)"

section \<open>replaceP.py: the item-code suffix\<close>

definition endswith :: "string \<Rightarrow> string \<Rightarrow> bool" where
  "endswith s suffix \<longleftrightarrow>
     length suffix \<le> length s \<and> drop (length s - length suffix) s = suffix"

text \<open>
  \<^verbatim>\<open>re.sub(r"\.P$", "", s)\<close>. Without the MULTILINE flag, \<^verbatim>\<open>$\<close> matches at the end of the
  string and also just before a newline that is the last character, so the pattern has at
  most one match: the \<^verbatim>\<open>.P\<close> that ends the string, or the \<^verbatim>\<open>.P\<close> in front of a final newline.
\<close>

definition newline :: char where
  "newline = CHR 0x0A"

definition replace_dot_P :: "string \<Rightarrow> string" where
  "replace_dot_P s =
     (if endswith s ''.P'' then take (length s - 2) s
      else if endswith s (''.P'' @ [newline]) then take (length s - 3) s @ [newline]
      else s)"

text \<open>\<^verbatim>\<open>df["item_code"].str.replace(...)\<close>: missing codes stay missing.\<close>

definition replaceP :: "price_record list \<Rightarrow> price_record list" where
  "replaceP df = map (\<lambda>r. r\<lparr>item_code := map_option replace_dot_P (item_code r)\<rparr>) df"

section \<open>cleanup.py: the month column\<close>

text \<open>
  A cell of the \<open>month\<close> column as \<^verbatim>\<open>read_csv\<close> delivers it: an integer (a column of
  integers only), or text or a missing value (a column of mixed content).
\<close>

datatype cell = CInt int | CStr string | CNaN

definition digit_char :: "nat \<Rightarrow> char" where
  "digit_char d = ''0123456789'' ! d"

function str_nat :: "nat \<Rightarrow> string" where
  "str_nat n = (if n < 10 then [digit_char n] else str_nat (n div 10) @ [digit_char (n mod 10)])"
  by pat_completeness auto
termination
  by (relation "measure id") auto

declare str_nat.simps [simp del]

text \<open>Python's \<^verbatim>\<open>str\<close> of an integer: decimal, no padding, a minus sign when negative.\<close>

definition str_int :: "int \<Rightarrow> string" where
  "str_int i = (if i < 0 then CHR ''-'' # str_nat (nat (- i)) else str_nat (nat i))"

text \<open>\<^verbatim>\<open>astype(str)\<close> on one cell; the text of a missing value is \<^verbatim>\<open>nan\<close>.\<close>

fun astype_str :: "cell \<Rightarrow> string" where
  "astype_str (CInt i) = str_int i"
| "astype_str (CStr s) = s"
| "astype_str CNaN = ''nan''"

text \<open>
  \<^verbatim>\<open>str.strip()\<close> removes white space at both ends. Characters are bytes here, so the white
  space is the ASCII part of Python's: tab, line feed, vertical tab, form feed, carriage
  return, the four separators \<open>0x1C\<close> to \<open>0x1F\<close>, and the blank.
\<close>

definition isspace :: "char \<Rightarrow> bool" where
  "isspace c \<longleftrightarrow>
     c \<in> set [CHR 0x09, CHR 0x0A, CHR 0x0B, CHR 0x0C, CHR 0x0D,
               CHR 0x1C, CHR 0x1D, CHR 0x1E, CHR 0x1F, CHR 0x20]"

definition py_strip :: "string \<Rightarrow> string" where
  "py_strip s = rev (dropWhile isspace (rev (dropWhile isspace s)))"

text \<open>\<^verbatim>\<open>[str(i) for i in range(1, 13)]\<close>\<close>

definition month_strings :: "string list" where
  "month_strings = map (\<lambda>i. str_int (int i)) [1..<13]"

definition digit_val :: "char \<Rightarrow> nat option" where
  "digit_val c = map_of (zip ''0123456789'' [0..<10]) c"

fun parse_digits :: "nat \<Rightarrow> string \<Rightarrow> nat option" where
  "parse_digits acc [] = Some acc"
| "parse_digits acc (c # cs) =
     (case digit_val c of None \<Rightarrow> None | Some d \<Rightarrow> parse_digits (10 * acc + d) cs)"

text \<open>
  \<^verbatim>\<open>int(s)\<close> on text made of an optional sign and decimal digits; anything else is a
  \<^verbatim>\<open>ValueError\<close>. (Python's \<^verbatim>\<open>int\<close> also accepts white space around the number and
  underscores between digits; the membership test in front of the conversion lets no such
  text through.)
\<close>

fun unsigned_int :: "string \<Rightarrow> py_error + int" where
  "unsigned_int [] = Inl ValueError"
| "unsigned_int (c # cs) =
     (case parse_digits 0 (c # cs) of None \<Rightarrow> Inl ValueError | Some n \<Rightarrow> Inr (int n))"

fun py_int :: "string \<Rightarrow> py_error + int" where
  "py_int [] = Inl ValueError"
| "py_int (c # cs) =
     (if c = CHR ''-'' then
        (case unsigned_int cs of Inl e \<Rightarrow> Inl e | Inr n \<Rightarrow> Inr (- n))
      else if c = CHR ''+'' then unsigned_int cs
      else unsigned_int (c # cs))"

text \<open>\<^verbatim>\<open>astype(int)\<close> on a column of text: the first failing cell raises.\<close>

fun astype_int :: "string list \<Rightarrow> py_error + int list" where
  "astype_int [] = Inr []"
| "astype_int (s # ss) =
     (case py_int s of
        Inl e \<Rightarrow> Inl e
      | Inr n \<Rightarrow> (case astype_int ss of Inl e \<Rightarrow> Inl e | Inr ns \<Rightarrow> Inr (n # ns)))"

text \<open>
  Lines 18 to 21 of \<^verbatim>\<open>cleanup.py\<close>: the cells as stripped text, the membership test that
  raises \<^verbatim>\<open>ValueError\<close>, the conversion to integers.
\<close>

definition month_text :: "cell \<Rightarrow> string" where
  "month_text c = py_strip (astype_str c)"

definition convert_month :: "cell list \<Rightarrow> py_error + int list" where
  "convert_month col =
     (let texts = map month_text col in
      if \<not> list_all (\<lambda>s. s \<in> set month_strings) texts then Inl ValueError
      else astype_int texts)"

section \<open>check.py: outliers by the interquartile range\<close>

text \<open>Arithmetic and comparison on cells that may be \<^verbatim>\<open>NaN\<close>.\<close>

definition nan2 :: "(real \<Rightarrow> real \<Rightarrow> real) \<Rightarrow> real option \<Rightarrow> real option \<Rightarrow> real option" where
  "nan2 f a b = (case a of None \<Rightarrow> None | Some x \<Rightarrow> (case b of None \<Rightarrow> None | Some y \<Rightarrow> Some (f x y)))"

definition nan_less :: "real option \<Rightarrow> real option \<Rightarrow> bool" where
  "nan_less a b = (case a of None \<Rightarrow> False | Some x \<Rightarrow> (case b of None \<Rightarrow> False | Some y \<Rightarrow> x < y))"

text \<open>
  \<^verbatim>\<open>Series.quantile(q)\<close> for \<open>0 \<le> q \<le> 1\<close>: missing values are skipped, the rest is sorted,
  and the value at position \<open>q * (n - 1)\<close> is interpolated linearly between its two
  neighbours.
\<close>

definition quantile :: "real \<Rightarrow> series \<Rightarrow> real option" where
  "quantile q col =
     (let vs = sort (present col); n = length vs in
      if n = 0 then None
      else
        let pos = q * real (n - 1);
            lo = nat \<lfloor>pos\<rfloor>;
            hi = min (lo + 1) (n - 1);
            frac = pos - real lo
        in Some (vs ! lo + frac * (vs ! hi - vs ! lo)))"

definition Q1 :: "series \<Rightarrow> real option" where
  "Q1 col = quantile 0.25 col"

definition Q3 :: "series \<Rightarrow> real option" where
  "Q3 col = quantile 0.75 col"

definition IQR :: "series \<Rightarrow> real option" where
  "IQR col = nan2 (-) (Q3 col) (Q1 col)"

definition lower_bound :: "series \<Rightarrow> real option" where
  "lower_bound col = nan2 (-) (Q1 col) (nan2 (\<lambda>a b. a * b) (Some 1.5) (IQR col))"

definition upper_bound :: "series \<Rightarrow> real option" where
  "upper_bound col = nan2 (+) (Q3 col) (nan2 (\<lambda>a b. a * b) (Some 1.5) (IQR col))"

text \<open>The boolean mask of line 23 of \<^verbatim>\<open>check.py\<close>, and the rows it selects.\<close>

definition outlier_mask :: "series \<Rightarrow> bool list" where
  "outlier_mask col =
     map (\<lambda>v. nan_less v (lower_bound col) \<or> nan_less (upper_bound col) v) col"

definition outliers :: "price_record list \<Rightarrow> price_record list" where
  "outliers df = map fst (filter snd (zip df (outlier_mask (map combined_index df))))"

section \<open>model.py: the seasonal chart of the item view\<close>

record trace =
  trace_name :: string
  trace_x :: "int list"
  trace_y :: series

record figure =
  fig_title :: string
  fig_traces :: "trace list"

text \<open>\<^verbatim>\<open>px.line(title=...)\<close> without data: a chart that shows its title only.\<close>

definition px_line_title :: "string \<Rightarrow> figure" where
  "px_line_title t = \<lparr>fig_title = t, fig_traces = []\<rparr>"

text \<open>\<^verbatim>\<open>groupby('month')['combined_index'].mean().reset_index()\<close>\<close>

definition monthly_avg :: "price_record list \<Rightarrow> (int \<times> real option) list" where
  "monthly_avg df =
     map (\<lambda>m. (m, series_mean (map combined_index (filter (\<lambda>r. month r = m) df))))
       (sort (remdups (map month df)))"

definition year_trace :: "price_record list \<Rightarrow> int \<Rightarrow> trace list" where
  "year_trace df y =
     (let year_data = filter (\<lambda>r. year r = y) df in
      if length year_data > 6 then
        [\<lparr>trace_name = ''Year '' @ str_int y,
          trace_x = map month year_data,
          trace_y = map combined_index year_data\<rparr>]
      else [])"

definition seasonal_title :: "string \<Rightarrow> int \<Rightarrow> int \<Rightarrow> string" where
  "seasonal_title item y0 y1 =
     ''Seasonal Pattern for '' @ item @ '' ('' @ str_int y0 @ ''-'' @ str_int y1 @ '')''"

definition insufficient_title :: "string \<Rightarrow> string" where
  "insufficient_title item = ''Insufficient data for seasonal analysis of '' @ item"

text \<open>The branch \<^verbatim>\<open>item_viz_type == 'seasonal'\<close> on the filtered frame.\<close>

definition seasonal_figure :: "string \<Rightarrow> int \<Rightarrow> int \<Rightarrow> price_record list \<Rightarrow> figure" where
  "seasonal_figure item y0 y1 filtered_df =
     (if length filtered_df > 12 then
        \<lparr>fig_title = seasonal_title item y0 y1,
         fig_traces =
           \<lparr>trace_name = ''Monthly Average'',
            trace_x = map fst (monthly_avg filtered_df),
            trace_y = map snd (monthly_avg filtered_df)\<rparr>
           # concat (map (year_trace filtered_df) (sort (remdups (map year filtered_df))))\<rparr>
      else px_line_title (insufficient_title item))"

text \<open>The filter in front of it: the chosen item within the chosen years.\<close>

definition item_filter :: "string \<Rightarrow> int \<Rightarrow> int \<Rightarrow> price_record list \<Rightarrow> price_record list" where
  "item_filter item y0 y1 item_df =
     filter (\<lambda>r. description r = Some item \<and> y0 \<le> year r \<and> year r \<le> y1) item_df"

definition item_view_seasonal :: "string \<Rightarrow> int \<Rightarrow> int \<Rightarrow> price_record list \<Rightarrow> figure" where
  "item_view_seasonal item y0 y1 item_df = seasonal_figure item y0 y1 (item_filter item y0 y1 item_df)"

section \<open>model.py: the forecast view\<close>

datatype forecast_method = Linear | MA | Exp

text \<open>
  What the moving-average and the smoothing branch hand to the chart and to the insight
  panel: the line drawn over the history (moving average or smoothed series), the
  projected values, and the numbers of the insight list.
\<close>

record forecast_result =
  fit_line :: series
  forecast_values :: series
  last_historical :: "real option"
  forecast_end :: "real option"
  forecast_change :: "real option"
  forecast_percent :: "real option"

text \<open>
  The linear branch hands its data to scikit-learn: \<^verbatim>\<open>LinearRegression().fit(X, y)\<close>, then
  \<^verbatim>\<open>predict\<close> on \<open>X\<close> and on the future periods, and \<^verbatim>\<open>score(X, y)\<close>. The solver works in
  floating point and is not part of this repository; its numbers are not modelled. What
  the branch itself decides is the call: the period indices \<open>0\<close> to \<open>n - 1\<close>, the values of
  the series, and the future indices \<open>n\<close> to \<open>n + period - 1\<close>.
\<close>

record regression_call =
  train_X :: "nat list"
  train_y :: "real list"
  future_X :: "nat list"

text \<open>
  The callback returns a chart and a text. \<open>NoData\<close> is the early return on an empty
  selection, with the chart's title and the text of the insight panel. \<open>LinearFit\<close> is the
  chart and the insights that the linear branch builds from the solver's answer to the
  recorded call.
\<close>

datatype outcome = NoData string string | Forecast forecast_result | LinearFit regression_call

text \<open>
  \<^verbatim>\<open>rolling(window=w).mean()\<close>: the value at row \<open>i\<close> is the mean of the rows
  \<open>i + 1 - w\<close> to \<open>i\<close> when at least \<open>w\<close> of them (and at least one) are present, else \<^verbatim>\<open>NaN\<close>.
\<close>

definition slice :: "nat \<Rightarrow> nat \<Rightarrow> 'a list \<Rightarrow> 'a list" where
  "slice start stop xs = take (stop - start) (drop start xs)"

definition window_mean :: "nat \<Rightarrow> series \<Rightarrow> real option" where
  "window_mean minp win =
     (let vs = present win in
      if minp \<le> length vs \<and> 0 < length vs then Some (mean_list vs) else None)"

definition rolling_mean :: "nat \<Rightarrow> series \<Rightarrow> series" where
  "rolling_mean w col = map (\<lambda>i. window_mean w (slice (i + 1 - w) (i + 1) col)) [0..<length col]"

text \<open>
  \<^verbatim>\<open>ewm(alpha=0.2).mean()\<close> with pandas' defaults (\<^verbatim>\<open>adjust=True\<close>, \<^verbatim>\<open>ignore_na=False\<close>): one
  pass that carries the weighted average so far and the weight of the old values.
\<close>

definition alpha :: real where
  "alpha = 0.2"

fun ewm_step :: "real option \<times> real \<Rightarrow> real option \<Rightarrow> real option \<times> real" where
  "ewm_step (None, old_wt) None = (None, old_wt)"
| "ewm_step (None, old_wt) (Some c) = (Some c, old_wt)"
| "ewm_step (Some w, old_wt) None = (Some w, old_wt * (1 - alpha))"
| "ewm_step (Some w, old_wt) (Some c) =
     (Some ((old_wt * (1 - alpha) * w + c) / (old_wt * (1 - alpha) + 1)),
      old_wt * (1 - alpha) + 1)"

fun ewm_from :: "real option \<times> real \<Rightarrow> series \<Rightarrow> series" where
  "ewm_from st [] = []"
| "ewm_from st (x # xs) = (let st' = ewm_step st x in fst st' # ewm_from st' xs)"

fun ewm_mean :: "series \<Rightarrow> series" where
  "ewm_mean [] = []"
| "ewm_mean (x # xs) = x # ewm_from (x, 1) xs"

text \<open>
  The insight numbers shared by the three methods. A comparison with \<^verbatim>\<open>NaN\<close> is false, so
  the percentage is \<open>0\<close> when the last historical value is missing or not positive.
\<close>

definition insights :: "series \<Rightarrow> series \<Rightarrow> real option \<times> real option \<times> real option \<times> real option" where
  "insights col fc =
     (let last_h = last col;
          fc_end = last fc;
          change = nan2 (-) fc_end last_h;
          percent = (if nan_less (Some 0) last_h
                     then nan2 (\<lambda>a b. a * b) (nan2 (/) change last_h) (Some 100) else Some 0)
      in (last_h, fc_end, change, percent))"

definition mk_result :: "series \<Rightarrow> series \<Rightarrow> series \<Rightarrow> forecast_result" where
  "mk_result col fit fc =
     (case insights col fc of (last_h, fc_end, change, percent) \<Rightarrow>
        \<lparr>fit_line = fit, forecast_values = fc,
         last_historical = last_h, forecast_end = fc_end,
         forecast_change = change, forecast_percent = percent\<rparr>)"

text \<open>
  The linear branch. The fit and the prediction validate their input: a missing value in
  \<open>y\<close> and an empty array of future periods are both a \<^verbatim>\<open>ValueError\<close>.
\<close>

definition forecast_linear :: "series \<Rightarrow> int \<Rightarrow> py_error + outcome" where
  "forecast_linear col period =
     (if None \<in> set col \<or> period \<le> 0 then Inl ValueError
      else
        let n = length col
        in Inr (LinearFit \<lparr>train_X = [0..<n], train_y = present col,
                             future_X = [n..<n + nat period]\<rparr>))"

text \<open>
  The moving-average branch: the window is \<^verbatim>\<open>forecast_period // 2\<close>. A negative window is
  refused by \<^verbatim>\<open>rolling\<close>; with period \<open>0\<close> the projection is empty and reading its last
  element fails.
\<close>

definition forecast_ma :: "series \<Rightarrow> int \<Rightarrow> py_error + outcome" where
  "forecast_ma col period =
     (let window_size = period div 2 in
      if window_size < 0 then Inl ValueError
      else
        let moving_avg = rolling_mean (nat window_size) col;
            fc = replicate (nat period) (last moving_avg)
        in if fc = [] then Inl IndexError
           else Inr (Forecast (mk_result col moving_avg fc)))"

text \<open>
  The exponential-smoothing branch. \<^verbatim>\<open>np.tile\<close> refuses a negative count; with period
  \<open>0\<close> the projection is empty and reading its last element fails.
\<close>

definition forecast_exp :: "series \<Rightarrow> int \<Rightarrow> py_error + outcome" where
  "forecast_exp col period =
     (let exp_smooth = ewm_mean col in
      if period < 0 then Inl ValueError
      else
        let fc = replicate (nat period) (last exp_smooth)
        in if fc = [] then Inl IndexError
           else Inr (Forecast (mk_result col exp_smooth fc)))"

text \<open>
  The forecast view on the filtered, date-sorted \<open>combined_index\<close> column: the guard on an
  empty selection comes first (lines 795 to 797), then the branch of the chosen method.
\<close>

definition forecast_view :: "series \<Rightarrow> int \<Rightarrow> forecast_method \<Rightarrow> py_error + outcome" where
  "forecast_view col period m =
     (if col = [] then
        Inr (NoData ''No data available for the selected parameters''
                    ''No data available for forecasting'')
      else case m of
             Linear \<Rightarrow> forecast_linear col period
           | MA \<Rightarrow> forecast_ma col period
           | Exp \<Rightarrow> forecast_exp col period)"

section \<open>Properties of de-duplication\<close>

lemma set_drop_dups_seen: "set (drop_dups_seen seen rs) = set rs - set seen"
  by (induction rs arbitrary: seen) auto

lemma distinct_drop_dups_seen: "distinct (drop_dups_seen seen rs)"
  by (induction rs arbitrary: seen) (auto simp: set_drop_dups_seen)

lemma drop_dups_seen_distinct_id:
  "distinct rs \<Longrightarrow> set rs \<inter> set seen = {} \<Longrightarrow> drop_dups_seen seen rs = rs"
  by (induction rs arbitrary: seen) auto

text \<open>
  Claim C8: de-duplication is idempotent. Applying \<open>drop_duplicates\<close> to its own result
  gives the same rows in the same order, hence the same row count.
\<close>

theorem drop_duplicates_idempotent:
  "drop_duplicates (drop_duplicates df) = drop_duplicates df \<and>
   length (drop_duplicates (drop_duplicates df)) = length (drop_duplicates df)"
  by (simp add: drop_duplicates_def drop_dups_seen_distinct_id distinct_drop_dups_seen)

section \<open>Properties of the suffix stripping\<close>

lemma endswith_iff: "endswith s u \<longleftrightarrow> (\<exists>t. s = t @ u)"
  unfolding endswith_def
  by (metis append_eq_conv_conj append_take_drop_id diff_add_inverse2 length_append le_add2 length_drop)

lemma endswith_append_same [simp]: "endswith (t @ u) (v @ u) \<longleftrightarrow> endswith t v"
  by (auto simp: endswith_iff)

lemma endswith_self_append [simp]: "endswith (t @ u) u"
  by (simp add: endswith_iff)

lemma endswith_last: "endswith s u \<Longrightarrow> u \<noteq> [] \<Longrightarrow> last s = last u"
  by (auto simp: endswith_iff)

lemma endswith_length: "endswith s u \<Longrightarrow> length u \<le> length s"
  by (simp add: endswith_def)

lemma replace_dot_P_fixed:
  "replace_dot_P s = s \<longleftrightarrow> \<not> endswith s ''.P'' \<and> \<not> endswith s (''.P'' @ [newline])"
proof (cases "endswith s ''.P''")
  case True
  then have "2 \<le> length s" by (auto dest: endswith_length)
  then have "length (replace_dot_P s) < length s"
    using True by (simp add: replace_dot_P_def)
  then show ?thesis using True by auto
next
  case False
  show ?thesis
  proof (cases "endswith s (''.P'' @ [newline])")
    case True
    then have "3 \<le> length s" by (auto dest: endswith_length)
    then have "length (replace_dot_P s) < length s"
      using True False by (simp add: replace_dot_P_def)
    then show ?thesis using True by auto
  next
    case F2: False
    then show ?thesis using False by (simp add: replace_dot_P_def)
  qed
qed

lemma replace_dot_P_append_P: "replace_dot_P (t @ ''.P'') = t"
  using endswith_self_append[of t "''.P''"] by (simp add: replace_dot_P_def del: endswith_self_append)

lemma newline_neq_P: "newline \<noteq> CHR ''P''"
  by (simp add: newline_def)

lemma replace_dot_P_append_Pnl: "replace_dot_P (t @ ''.P'' @ [newline]) = t @ [newline]"
proof -
  have "\<not> endswith (t @ ''.P'' @ [newline]) ''.P''"
    using endswith_last[of "t @ ''.P'' @ [newline]" "''.P''"] newline_neq_P by auto
  moreover have "endswith (t @ ''.P'' @ [newline]) (''.P'' @ [newline])"
    by (rule endswith_self_append)
  ultimately show ?thesis by (simp add: replace_dot_P_def)
qed

text \<open>
  Claim C3, as the code has it. One call removes one suffix: the \<^verbatim>\<open>.P\<close> that ends the code,
  or the one in front of a final newline. A second call changes the result exactly when a
  further suffix is uncovered, that is when the code ends in \<^verbatim>\<open>.P.P\<close>, in \<^verbatim>\<open>.P\<close>, newline,
  \<^verbatim>\<open>.P\<close>, or in \<^verbatim>\<open>.P.P\<close>, newline. On every other code stripping twice equals stripping once.
\<close>

theorem replace_dot_P_idempotent_iff:
  "replace_dot_P (replace_dot_P s) = replace_dot_P s \<longleftrightarrow>
     \<not> (endswith s ''.P.P'' \<or> endswith s (''.P'' @ [newline] @ ''.P'') \<or> endswith s (''.P.P'' @ [newline]))"
proof (cases "endswith s ''.P''")
  case True
  then obtain t where s: "s = t @ ''.P''" by (auto simp: endswith_iff)
  have a: "endswith s ''.P.P'' \<longleftrightarrow> endswith t ''.P''"
    using endswith_append_same[of t "''.P''" "''.P''"] by (simp add: s)
  have b: "endswith s (''.P'' @ [newline] @ ''.P'') \<longleftrightarrow> endswith t (''.P'' @ [newline])"
    using endswith_append_same[of t "''.P''" "''.P'' @ [newline]"] by (simp add: s)
  have c: "\<not> endswith s (''.P.P'' @ [newline])"
    using endswith_last[of s "''.P.P'' @ [newline]"] newline_neq_P by (auto simp: s)
  show ?thesis
    using a b c by (simp only: s replace_dot_P_append_P replace_dot_P_fixed) (auto simp: s)
next
  case notP: False
  have a: "\<not> endswith s ''.P.P''"
    using notP by (auto simp: endswith_iff)
  have b: "\<not> endswith s (''.P'' @ [newline] @ ''.P'')"
    using notP by (auto simp: endswith_iff)
  show ?thesis
  proof (cases "endswith s (''.P'' @ [newline])")
    case True
    then obtain t where s: "s = t @ ''.P'' @ [newline]" by (auto simp: endswith_iff)
    have c: "endswith s (''.P.P'' @ [newline]) \<longleftrightarrow> endswith t ''.P''"
      using endswith_append_same[of t "''.P'' @ [newline]" "''.P''"] by (simp add: s)
    have d: "\<not> endswith (t @ [newline]) ''.P''"
      using endswith_last[of "t @ [newline]" "''.P''"] newline_neq_P by auto
    have e: "endswith (t @ [newline]) (''.P'' @ [newline]) \<longleftrightarrow> endswith t ''.P''"
      using endswith_append_same[of t "[newline]" "''.P''"] by simp
    have "replace_dot_P s = t @ [newline]"
      unfolding s by (rule replace_dot_P_append_Pnl)
    then show ?thesis
      using a b c d e by (simp add: replace_dot_P_fixed)
  next
    case False
    then have c: "\<not> endswith s (''.P.P'' @ [newline])"
      by (auto simp: endswith_iff)
    have "replace_dot_P s = s"
      using notP False by (simp add: replace_dot_P_fixed)
    then show ?thesis using a b c by simp
  qed
qed

text \<open>
  Claim C3 as stated fails: on a code with a doubled suffix the second call removes the
  second \<^verbatim>\<open>.P\<close>.
\<close>

theorem replace_dot_P_twice_counterexample:
  "replace_dot_P ''1.1.01.1.1.P.P'' = ''1.1.01.1.1.P'' \<and>
   replace_dot_P (replace_dot_P ''1.1.01.1.1.P.P'') = ''1.1.01.1.1'' \<and>
   replace_dot_P (replace_dot_P ''1.1.01.1.1.P.P'') \<noteq> replace_dot_P ''1.1.01.1.1.P.P''"
  by (simp add: replace_dot_P_def endswith_def newline_def)

theorem replace_dot_P_idempotent_iff_witness:
  "replace_dot_P (replace_dot_P ''1.1.01.1.1.X.P'') = replace_dot_P ''1.1.01.1.1.X.P'' \<and>
   replace_dot_P ''1.1.01.1.1.X.P'' = ''1.1.01.1.1.X''"
  using replace_dot_P_idempotent_iff [of "''1.1.01.1.1.X.P''"]
  by (simp add: endswith_def newline_def replace_dot_P_def)

section \<open>Properties of the forecast view\<close>

lemma mk_result_sel [simp]:
  "fit_line (mk_result col fit fc) = fit"
  "forecast_values (mk_result col fit fc) = fc"
  by (simp_all add: mk_result_def split: prod.splits)

text \<open>
  Claim C1, as the code has it. On an empty historical series the forecast view returns
  the "no data" placeholder, chart title and message, whatever the method and the horizon.
  It raises nothing and computes no forecast.
\<close>

theorem forecast_empty_placeholder:
  "forecast_view [] period m =
     Inr (NoData ''No data available for the selected parameters''
                 ''No data available for forecasting'')"
  by (simp add: forecast_view_def)

text \<open>
  Claim C1 as stated fails: the request is not refused with an error, it returns.
\<close>

theorem forecast_empty_no_error_counterexample:
  "forecast_view [] 12 Linear =
     Inr (NoData ''No data available for the selected parameters''
                 ''No data available for forecasting'') \<and> \<not> isl (forecast_view [] 12 Linear)"
  by (simp add: forecast_view_def)

lemma length_rolling_mean [simp]: "length (rolling_mean w col) = length col"
  by (simp add: rolling_mean_def)

lemma last_rolling_mean:
  assumes "col \<noteq> []"
  shows "last (rolling_mean w col) = window_mean w (drop (length col - w) col)"
proof -
  from assms obtain n where n: "length col = Suc n" by (cases col) auto
  have "rolling_mean w col = map (\<lambda>i. window_mean w (slice (i + 1 - w) (i + 1) col)) [0..<n] @
          [window_mean w (slice (n + 1 - w) (n + 1) col)]"
    by (simp add: rolling_mean_def n)
  then have "last (rolling_mean w col) = window_mean w (slice (n + 1 - w) (n + 1) col)"
    by simp
  also have "slice (n + 1 - w) (n + 1) col = drop (length col - w) col"
    by (simp add: slice_def n)
  finally show ?thesis .
qed

lemma length_present_le: "length (present col) \<le> length col"
  by (induction col rule: present.induct) auto

lemma window_mean_short: "length win < w \<Longrightarrow> window_mean w win = None"
  using length_present_le[of win] by (simp add: window_mean_def)

lemma forecast_ma_pos:
  assumes "col \<noteq> []" "0 < period"
  shows "forecast_view col period MA =
     Inr (Forecast (mk_result col (rolling_mean (nat (period div 2)) col)
        (replicate (nat period) (last (rolling_mean (nat (period div 2)) col)))))"
proof -
  have "0 \<le> period div 2" using assms(2) by simp
  moreover have "replicate (nat period) x \<noteq> []" for x :: "real option"
    using assms(2) by simp
  ultimately show ?thesis
    using assms(1) by (simp add: forecast_view_def forecast_ma_def Let_def)
qed

lemma ex_series: "rolling_mean 3 [Some 10, Some 20, Some 30, Some 40, Some 50, Some 60]
   = [None, None, Some 20, Some 30, Some 40, Some 50]"
  by (simp add: rolling_mean_def slice_def window_mean_def mean_list_def upt_rec)

text \<open>
  Claim C5: for a non-empty series and a positive horizon the moving-average branch
  returns a forecast; the line over the history is the rolling mean with window
  \<open>period div 2\<close>, each of the \<open>period\<close> projected values is the last rolling value, and that
  value is the mean over the last \<open>period div 2\<close> rows (missing when the window is not
  full). With horizon \<open>6\<close>, hence window \<open>3\<close>, on 10, 20, 30, 40, 50, 60 every projected
  value is \<open>50\<close>.
\<close>

theorem ma_forecast_flat:
  "(col \<noteq> [] \<and> 0 < period \<longrightarrow>
     (\<exists>r. forecast_view col period MA = Inr (Forecast r) \<and>
          fit_line r = rolling_mean (nat (period div 2)) col \<and>
          forecast_values r = replicate (nat period) (last (fit_line r)) \<and>
          last (fit_line r) =
            window_mean (nat (period div 2)) (drop (length col - nat (period div 2)) col))) \<and>
   (\<exists>r. forecast_view [Some 10, Some 20, Some 30, Some 40, Some 50, Some 60] 6 MA
          = Inr (Forecast r) \<and>
        fit_line r = rolling_mean 3 [Some 10, Some 20, Some 30, Some 40, Some 50, Some 60] \<and>
        forecast_values r = replicate 6 (Some 50))"
proof (intro conjI impI)
  assume a: "col \<noteq> [] \<and> 0 < period"
  then show "\<exists>r. forecast_view col period MA = Inr (Forecast r) \<and>
          fit_line r = rolling_mean (nat (period div 2)) col \<and>
          forecast_values r = replicate (nat period) (last (fit_line r)) \<and>
          last (fit_line r) =
            window_mean (nat (period div 2)) (drop (length col - nat (period div 2)) col)"
    by (simp add: forecast_ma_pos last_rolling_mean)
next
  have "forecast_view [Some 10, Some 20, Some 30, Some 40, Some 50, Some 60] 6 MA =
     Inr (Forecast (mk_result [Some 10, Some 20, Some 30, Some 40, Some 50, Some 60]
        (rolling_mean (nat (6 div 2)) [Some 10, Some 20, Some 30, Some 40, Some 50, Some 60])
        (replicate (nat 6) (last (rolling_mean (nat (6 div 2)) [Some 10, Some 20, Some 30, Some 40, Some 50, Some 60])))))"
    by (rule forecast_ma_pos) simp_all
  moreover have "nat (6 div 2) = 3" by simp
  ultimately show "\<exists>r. forecast_view [Some 10, Some 20, Some 30, Some 40, Some 50, Some 60] 6 MA
          = Inr (Forecast r) \<and>
        fit_line r = rolling_mean 3 [Some 10, Some 20, Some 30, Some 40, Some 50, Some 60] \<and>
        forecast_values r = replicate 6 (Some 50)"
    by (simp add: ex_series)
qed

theorem ma_forecast_flat_witness:
  "\<exists>r. forecast_view [Some 1, Some 3] 4 MA = Inr (Forecast r) \<and>
       forecast_values r = replicate 4 (Some 2)"
  using ma_forecast_flat [of "[Some 1, Some 3]" 4]
  by (auto simp: window_mean_def mean_list_def)

text \<open>
  Claim C10: when the non-empty series has fewer than \<open>period div 2\<close> rows, the last
  rolling value is missing and the moving-average branch returns a forecast whose
  \<open>period\<close> values are all missing; no error is raised.
\<close>

theorem ma_short_history_nan:
  assumes "col \<noteq> []" and "0 < period" and "length col < nat (period div 2)"
  shows "\<exists>r. forecast_view col period MA = Inr (Forecast r) \<and>
             last (fit_line r) = None \<and>
             forecast_values r = replicate (nat period) None"
proof -
  have "last (rolling_mean (nat (period div 2)) col) = None"
    using assms(1,3) by (simp add: last_rolling_mean window_mean_short)
  then show ?thesis using assms(1,2) by (simp add: forecast_ma_pos)
qed

theorem ma_short_history_nan_witness:
  "\<exists>r. forecast_view [Some 100, Some 101] 6 MA = Inr (Forecast r) \<and>
       forecast_values r = [None, None, None, None, None, None]"
  using ma_short_history_nan [of "[Some 100, Some 101]" 6]
  by (auto simp: numeral_eq_Suc)

section \<open>Properties of the imputation\<close>

lemma length_ffill_from [simp]: "length (ffill_from p xs) = length xs"
  by (induction p xs rule: ffill_from.induct) auto

lemma length_impute [simp]: "length (impute col) = length col"
  by (simp add: impute_def fillna_def ffill_def Let_def)

lemma last_present_Cons:
  "last_present (x # ys) = (case last_present ys of Some v \<Rightarrow> Some v | None \<Rightarrow> x)"
  by (cases x) (auto simp: last_present_def split: list.splits)

lemma last_present_Nil [simp]: "last_present [] = None"
  by (simp add: last_present_def)

lemma ffill_from_nth:
  "i < length xs \<Longrightarrow>
   ffill_from p xs ! i =
     (case xs ! i of
        Some v \<Rightarrow> Some v
      | None \<Rightarrow> (case last_present (take i xs) of Some v \<Rightarrow> Some v | None \<Rightarrow> p))"
proof (induction p xs arbitrary: i rule: ffill_from.induct)
  case (1 prev)
  then show ?case by simp
next
  case (2 prev xs)
  then show ?case
    by (cases i) (auto simp: last_present_Cons split: option.splits)
next
  case (3 prev v xs)
  then show ?case
    by (cases i) (auto simp: last_present_Cons split: option.splits)
qed

lemma impute_nth:
  assumes "i < length col"
  shows "impute col ! i =
     (case col ! i of
        Some v \<Rightarrow> Some v
      | None \<Rightarrow> (case earlier_value col i of
                   Some v \<Rightarrow> Some v
                 | None \<Rightarrow> series_mean (ffill col)))"
  using assms
  by (simp add: impute_def Let_def fillna_def ffill_def ffill_from_nth earlier_value_def
      split: option.splits)

lemma ffill_from_keeps: "Some v \<in> set xs \<Longrightarrow> Some v \<in> set (ffill_from p xs)"
  by (induction p xs rule: ffill_from.induct) auto

lemma present_Nil_iff: "present xs = [] \<longleftrightarrow> (\<forall>x \<in> set xs. x = None)"
  by (induction xs rule: present.induct) auto

lemma ffill_from_all_missing:
  "\<forall>x \<in> set xs. x = None \<Longrightarrow> ffill_from None xs = xs"
  by (induction xs) auto

lemma fillna_no_missing: "v \<noteq> None \<Longrightarrow> None \<notin> set (fillna v xs)"
  by (auto simp: fillna_def split: option.splits)

lemma impute_missing_iff:
  "None \<in> set (impute col) \<longleftrightarrow> col \<noteq> [] \<and> (\<forall>x \<in> set col. x = None)"
proof (cases "\<forall>x \<in> set col. x = None")
  case True
  then have f: "ffill col = col" by (simp add: ffill_def ffill_from_all_missing)
  have m: "series_mean col = None" using True by (simp add: series_mean_def present_Nil_iff)
  have "fillna None col = col" using True by (induction col) (auto simp: fillna_def)
  then have "impute col = col" by (simp add: impute_def f m)
  then show ?thesis using True by (cases col) auto
next
  case False
  then obtain v where "Some v \<in> set col" by (metis option.exhaust)
  then have "Some v \<in> set (ffill col)" by (simp add: ffill_def ffill_from_keeps)
  then have "present (ffill col) \<noteq> []" by (auto simp: present_Nil_iff)
  then have "series_mean (ffill col) \<noteq> None" by (simp add: series_mean_def)
  then have "None \<notin> set (impute col)"
    unfolding impute_def Let_def by (rule fillna_no_missing)
  then show ?thesis using False by auto
qed

lemma column_fill_combined_index:
  "map combined_index (fill_combined_index df) = impute (map combined_index df)"
  by (simp add: fill_combined_index_def list_eq_iff_nth_eq)

lemma length_fill_combined_index [simp]: "length (fill_combined_index df) = length df"
  by (simp add: fill_combined_index_def)

text \<open>
  Claim C2, as the code has it (pandas 2, where the in-place fill on the selected column
  writes to the frame). After forward-fill and mean-fill every cell that had a value keeps
  it; every cell that was missing holds the nearest value of a strictly earlier row when
  there is one, and otherwise the mean of the forward-filled column. The column is free of
  missing values unless the frame has rows and none of them has a value: then the mean is
  itself missing and the column stays as it was.
\<close>

theorem imputation_characterised:
  "(\<forall>i < length df.
       combined_index (fill_combined_index df ! i) =
         (case combined_index (df ! i) of
            Some v \<Rightarrow> Some v
          | None \<Rightarrow> (case earlier_value (map combined_index df) i of
                       Some v \<Rightarrow> Some v
                     | None \<Rightarrow> series_mean (ffill (map combined_index df))))) \<and>
   (None \<in> set (map combined_index (fill_combined_index df)) \<longleftrightarrow>
      df \<noteq> [] \<and> (\<forall>r \<in> set df. combined_index r = None))"
proof (intro conjI allI impI)
  fix i assume i: "i < length df"
  have "combined_index (fill_combined_index df ! i) =
          map combined_index (fill_combined_index df) ! i"
    using i by simp
  also have "\<dots> = impute (map combined_index df) ! i"
    by (simp only: column_fill_combined_index)
  finally show "combined_index (fill_combined_index df ! i) =
         (case combined_index (df ! i) of
            Some v \<Rightarrow> Some v
          | None \<Rightarrow> (case earlier_value (map combined_index df) i of
                       Some v \<Rightarrow> Some v
                     | None \<Rightarrow> series_mean (ffill (map combined_index df))))"
    using i by (simp add: impute_nth)
next
  show "None \<in> set (map combined_index (fill_combined_index df)) \<longleftrightarrow>
      df \<noteq> [] \<and> (\<forall>r \<in> set df. combined_index r = None)"
    unfolding column_fill_combined_index impute_missing_iff by auto
qed

text \<open>
  Claim C2 as stated fails on a column with no value at all: the cell is still missing
  after both fills.
\<close>

theorem imputation_all_missing_counterexample:
  "map combined_index
     (fill_combined_index
        [\<lparr>item_code = Some ''1.1.01.1.1.01.0'', description = Some ''Rice'',
          year = 2020, month = 1, combined_index = None\<rparr>]) = [None]"
  by (simp add: fill_combined_index_def impute_def ffill_def fillna_def series_mean_def)

theorem imputation_characterised_witness:
  "map combined_index
     (fill_combined_index
        (map (\<lambda>v. \<lparr>item_code = Some ''1.1.01.1.1.01.0'', description = Some ''Rice'',
                   year = 2020, month = 1, combined_index = v\<rparr>)
           [None, Some 2, None, Some 4, None]))
     = [Some 3, Some 2, Some 2, Some 4, Some 4] \<and>
   None \<notin> set (map combined_index
     (fill_combined_index
        (map (\<lambda>v. \<lparr>item_code = Some ''1.1.01.1.1.01.0'', description = Some ''Rice'',
                   year = 2020, month = 1, combined_index = v\<rparr>)
           [None, Some 2, None, Some 4, None])))"
  using imputation_characterised [of "map (\<lambda>v. \<lparr>item_code = Some ''1.1.01.1.1.01.0'', description = Some ''Rice'',
                   year = 2020, month = 1, combined_index = v\<rparr>)
           [None, Some 2, None, Some 4, None]"]
  by (simp add: fill_combined_index_def impute_def ffill_def fillna_def series_mean_def mean_list_def)

section \<open>Properties of the month conversion\<close>

lemma month_strings_eq:
  "month_strings = [''1'', ''2'', ''3'', ''4'', ''5'', ''6''] @ [''7'', ''8'', ''9'', ''10'', ''11'', ''12'']"
  by (simp add: month_strings_def str_int_def str_nat.simps digit_char_def upt_rec)

lemma digit_val_simps:
  "digit_val CHR ''0'' = Some 0" "digit_val CHR ''1'' = Some 1" "digit_val CHR ''2'' = Some 2"
  "digit_val CHR ''3'' = Some 3" "digit_val CHR ''4'' = Some 4" "digit_val CHR ''5'' = Some 5"
  "digit_val CHR ''6'' = Some 6" "digit_val CHR ''7'' = Some 7" "digit_val CHR ''8'' = Some 8"
  "digit_val CHR ''9'' = Some 9"
  by (simp_all add: digit_val_def upt_rec)

lemma py_int_literals:
  "py_int ''1'' = Inr 1" "py_int ''2'' = Inr 2" "py_int ''3'' = Inr 3" "py_int ''4'' = Inr 4"
  "py_int ''5'' = Inr 5" "py_int ''6'' = Inr 6" "py_int ''7'' = Inr 7" "py_int ''8'' = Inr 8"
  "py_int ''9'' = Inr 9" "py_int ''10'' = Inr 10" "py_int ''11'' = Inr 11"
  "py_int ''12'' = Inr 12"
  by (simp_all add: digit_val_simps)

lemma str_int_literals:
  "str_int 1 = ''1''" "str_int 2 = ''2''" "str_int 3 = ''3''" "str_int 4 = ''4''"
  "str_int 5 = ''5''" "str_int 6 = ''6''" "str_int 7 = ''7''" "str_int 8 = ''8''"
  "str_int 9 = ''9''" "str_int 10 = ''10''" "str_int 11 = ''11''" "str_int 12 = ''12''"
  by (simp_all add: str_int_def str_nat.simps digit_char_def)

lemma py_int_month:
  assumes "s \<in> set month_strings"
  shows "\<exists>m. py_int s = Inr m \<and> 1 \<le> m \<and> m \<le> 12 \<and> str_int m = s"
proof -
  from assms have "s = ''1'' \<or> s = ''2'' \<or> s = ''3'' \<or> s = ''4'' \<or> s = ''5'' \<or> s = ''6''
    \<or> s = ''7'' \<or> s = ''8'' \<or> s = ''9'' \<or> s = ''10'' \<or> s = ''11'' \<or> s = ''12''"
    unfolding month_strings_eq by simp
  then show ?thesis
    by (elim disjE) (simp_all add: digit_val_simps str_int_literals)
qed

lemma astype_int_months:
  "list_all (\<lambda>s. s \<in> set month_strings) texts \<Longrightarrow>
   \<exists>ms. astype_int texts = Inr ms \<and> length ms = length texts \<and>
        (\<forall>i < length texts. 1 \<le> ms ! i \<and> ms ! i \<le> 12 \<and> str_int (ms ! i) = texts ! i)"
proof (induction texts)
  case Nil
  then show ?case by simp
next
  case (Cons s texts)
  then obtain ms where ms: "astype_int texts = Inr ms" "length ms = length texts"
    "\<forall>i < length texts. 1 \<le> ms ! i \<and> ms ! i \<le> 12 \<and> str_int (ms ! i) = texts ! i"
    by auto
  from Cons.prems obtain m where m: "py_int s = Inr m" "1 \<le> m" "m \<le> 12" "str_int m = s"
    using py_int_month[of s] by auto
  have "astype_int (s # texts) = Inr (m # ms)" by (simp add: m ms)
  moreover have "\<forall>i < length (s # texts).
      1 \<le> (m # ms) ! i \<and> (m # ms) ! i \<le> 12 \<and> str_int ((m # ms) ! i) = (s # texts) ! i"
    using m ms(3) by (auto simp: nth_Cons split: nat.splits)
  ultimately show ?case using ms(2) by auto
qed

text \<open>
  Claim C7: the month conversion returns integers exactly when every cell, as stripped
  text, is one of the twelve literals \<^verbatim>\<open>1\<close> to \<^verbatim>\<open>12\<close>; each result is then between 1 and 12
  and is the number its cell spells. In every other case the script raises the
  \<^verbatim>\<open>ValueError\<close> of line 20 and writes nothing: so for the padded \<^verbatim>\<open>01\<close> and for the
  out-of-range \<^verbatim>\<open>13\<close> and \<^verbatim>\<open>0\<close>.
\<close>

theorem convert_month_exact:
  "(list_all (\<lambda>c. month_text c \<in> set month_strings) col \<longrightarrow>
      (\<exists>ms. convert_month col = Inr ms \<and> length ms = length col \<and>
            (\<forall>i < length col.
                1 \<le> ms ! i \<and> ms ! i \<le> 12 \<and> str_int (ms ! i) = month_text (col ! i)))) \<and>
   (\<not> list_all (\<lambda>c. month_text c \<in> set month_strings) col \<longrightarrow>
      convert_month col = Inl ValueError) \<and>
   month_strings =
     [''1'', ''2'', ''3'', ''4'', ''5'', ''6''] @ [''7'', ''8'', ''9'', ''10'', ''11'', ''12''] \<and>
   convert_month [CStr ''01''] = Inl ValueError \<and>
   convert_month [CStr ''13''] = Inl ValueError \<and>
   convert_month [CInt 0] = Inl ValueError"
proof (intro conjI impI)
  assume ok: "list_all (\<lambda>c. month_text c \<in> set month_strings) col"
  then have ok': "list_all (\<lambda>s. s \<in> set month_strings) (map month_text col)"
    by (simp add: list_all_iff)
  from astype_int_months[OF ok'] ok'
  show "\<exists>ms. convert_month col = Inr ms \<and> length ms = length col \<and>
            (\<forall>i < length col.
                1 \<le> ms ! i \<and> ms ! i \<le> 12 \<and> str_int (ms ! i) = month_text (col ! i))"
    by (auto simp: convert_month_def Let_def)
next
  assume "\<not> list_all (\<lambda>c. month_text c \<in> set month_strings) col"
  then have "\<not> list_all (\<lambda>s. s \<in> set month_strings) (map month_text col)"
    by (simp add: list_all_iff)
  then show "convert_month col = Inl ValueError"
    by (simp add: convert_month_def Let_def)
next
  show "month_strings =
     [''1'', ''2'', ''3'', ''4'', ''5'', ''6''] @ [''7'', ''8'', ''9'', ''10'', ''11'', ''12'']"
    by (rule month_strings_eq)
next
  show "convert_month [CStr ''01''] = Inl ValueError"
    by (simp add: convert_month_def month_strings_eq month_text_def py_strip_def isspace_def)
next
  show "convert_month [CStr ''13''] = Inl ValueError"
    by (simp add: convert_month_def month_strings_eq month_text_def py_strip_def isspace_def)
next
  show "convert_month [CInt 0] = Inl ValueError"
    by (simp add: convert_month_def month_strings_eq month_text_def py_strip_def isspace_def
        str_int_def str_nat.simps digit_char_def)
qed

lemma month_text_examples:
  "month_text (CInt 3) = ''3''" "month_text (CStr '' 12 '') = ''12''"
  "month_text (CStr ''7'') = ''7''" "month_text (CStr ''March'') = ''March''"
  by (simp_all add: month_text_def py_strip_def isspace_def str_int_literals)

theorem convert_month_exact_witness:
  "convert_month [CInt 3, CStr '' 12 '', CStr ''7''] = Inr [3, 12, 7] \<and>
   convert_month [CInt 3, CStr ''March''] = Inl ValueError"
proof -
  have ok: "list_all (\<lambda>c. month_text c \<in> set month_strings) [CInt 3, CStr '' 12 '', CStr ''7'']"
    by (simp add: month_text_examples month_strings_eq)
  have bad: "\<not> list_all (\<lambda>c. month_text c \<in> set month_strings) [CInt 3, CStr ''March'']"
    by (simp add: month_text_examples month_strings_eq)
  have a: "\<exists>ms. convert_month [CInt 3, CStr '' 12 '', CStr ''7''] = Inr ms"
    using convert_month_exact [of "[CInt 3, CStr '' 12 '', CStr ''7'']"] ok by blast
  have b: "convert_month [CInt 3, CStr ''March''] = Inl ValueError"
    using convert_month_exact [of "[CInt 3, CStr ''March'']"] bad by blast
  have "astype_int [''3'', ''12'', ''7''] = Inr [3, 12, 7]"
    by (simp add: digit_val_simps)
  then have "convert_month [CInt 3, CStr '' 12 '', CStr ''7''] = Inr [3, 12, 7]"
    using a ok by (simp add: convert_month_def month_text_examples)
  with b show ?thesis by simp
qed

section \<open>The outlier rule on an example\<close>

lemma sorted_ex: "sort [10, 12, 11, 13, 200 :: real] = [10, 11, 12, 13, 200]"
  by simp

lemma q1_ex: "Q1 [Some 10, Some 12, Some 11, Some 13, Some 200] = Some 11"
  by (simp add: Q1_def quantile_def Let_def)

lemma q3_ex: "Q3 [Some 10, Some 12, Some 11, Some 13, Some 200] = Some 13"
  by (simp add: Q3_def quantile_def Let_def)

text \<open>
  Claim C9: on the column 10, 12, 11, 13, 200 the quartiles are 11 and 13, the
  interquartile range is 2, the bounds are 8 and 16, and the mask flags the value 200 and
  none of the other four.
\<close>

theorem tukey_example:
  "Q1 [Some 10, Some 12, Some 11, Some 13, Some 200] = Some 11 \<and>
   Q3 [Some 10, Some 12, Some 11, Some 13, Some 200] = Some 13 \<and>
   IQR [Some 10, Some 12, Some 11, Some 13, Some 200] = Some 2 \<and>
   lower_bound [Some 10, Some 12, Some 11, Some 13, Some 200] = Some 8 \<and>
   upper_bound [Some 10, Some 12, Some 11, Some 13, Some 200] = Some 16 \<and>
   outlier_mask [Some 10, Some 12, Some 11, Some 13, Some 200]
     = [False, False, False, False, True]"
  by (simp add: outlier_mask_def lower_bound_def upper_bound_def IQR_def q1_ex q3_ex
      nan2_def nan_less_def)

section \<open>Properties of the seasonal chart\<close>

text \<open>
  Claim C4, as the code has it: the guard is \<^verbatim>\<open>len(filtered_df) > 12\<close>. With at most 12 rows
  the seasonal branch returns the "insufficient data" placeholder chart; with more than 12
  rows it returns the seasonal chart, whose first trace is the monthly average over the
  years, one point for each month that occurs.
\<close>

theorem seasonal_threshold:
  "(length filtered_df \<le> 12 \<longrightarrow>
      seasonal_figure item y0 y1 filtered_df = px_line_title (insufficient_title item)) \<and>
   (12 < length filtered_df \<longrightarrow>
      fig_title (seasonal_figure item y0 y1 filtered_df) = seasonal_title item y0 y1 \<and>
      fig_traces (seasonal_figure item y0 y1 filtered_df) \<noteq> [] \<and>
      trace_name (hd (fig_traces (seasonal_figure item y0 y1 filtered_df))) = ''Monthly Average'' \<and>
      trace_x (hd (fig_traces (seasonal_figure item y0 y1 filtered_df)))
        = sort (remdups (map month filtered_df)) \<and>
      trace_y (hd (fig_traces (seasonal_figure item y0 y1 filtered_df)))
        = map (\<lambda>m. series_mean (map combined_index (filter (\<lambda>r. month r = m) filtered_df)))
            (sort (remdups (map month filtered_df))) \<and>
      seasonal_figure item y0 y1 filtered_df \<noteq> px_line_title (insufficient_title item))"
  by (auto simp: seasonal_figure_def px_line_title_def monthly_avg_def comp_def)

text \<open>
  Claim C4 as stated fails at exactly 12 rows (one full year): the placeholder is
  returned, not the seasonal chart.
\<close>

theorem seasonal_twelve_rows_counterexample:
  "length (map (\<lambda>m. \<lparr>item_code = Some ''1.1.01.1.1.01.0'', description = Some ''Rice'',
                      year = 2020, month = m, combined_index = Some 100\<rparr>)
             [1, 2, 3, 4, 5, 6, 7, 8, 9, 10, 11, 12]) = 12 \<and>
   seasonal_figure ''Rice'' 2018 2023
     (map (\<lambda>m. \<lparr>item_code = Some ''1.1.01.1.1.01.0'', description = Some ''Rice'',
                 year = 2020, month = m, combined_index = Some 100\<rparr>)
        [1, 2, 3, 4, 5, 6, 7, 8, 9, 10, 11, 12])
     = \<lparr>fig_title = ''Insufficient data for seasonal analysis of Rice'', fig_traces = []\<rparr>"
  by (simp add: seasonal_figure_def px_line_title_def insufficient_title_def)

theorem seasonal_threshold_witness:
  "fig_title (seasonal_figure ''Rice'' 2018 2023
     (map (\<lambda>m. \<lparr>item_code = Some ''1.1.01.1.1.01.0'', description = Some ''Rice'',
                 year = 2020, month = m, combined_index = Some 100\<rparr>)
        [1, 2, 3, 4, 5, 6, 7, 8, 9, 10, 11, 12, 1])) = seasonal_title ''Rice'' 2018 2023 \<and>
   seasonal_figure ''Rice'' 2018 2023
     (map (\<lambda>m. \<lparr>item_code = Some ''1.1.01.1.1.01.0'', description = Some ''Rice'',
                 year = 2020, month = m, combined_index = Some 100\<rparr>)
        [1, 2, 3]) = px_line_title (insufficient_title ''Rice'')"
  using seasonal_threshold [of "map (\<lambda>m. \<lparr>item_code = Some ''1.1.01.1.1.01.0'', description = Some ''Rice'',
                 year = 2020, month = m, combined_index = Some 100\<rparr>)
        [1, 2, 3, 4, 5, 6, 7, 8, 9, 10, 11, 12, 1]" "''Rice''" 2018 2023]
    seasonal_threshold [of "map (\<lambda>m. \<lparr>item_code = Some ''1.1.01.1.1.01.0'', description = Some ''Rice'',
                 year = 2020, month = m, combined_index = Some 100\<rparr>)
        [1, 2, 3]" "''Rice''" 2018 2023]
  by simp

end
